theory Spec2Isabelle
  imports Main
begin

section \<open>Values, backend handles and the request context\<close>

text \<open>
  The program is one Go file, \<^verbatim>\<open>main.go\<close>: a struct \<^verbatim>\<open>MovieAPI\<close> of three client
  handles, its constructor, four handlers and a CORS middleware. The clients
  (\<^verbatim>\<open>filmigo/imdb\<close>, \<^verbatim>\<open>filmigo/omdb\<close>, \<^verbatim>\<open>filmigo/justwatch\<close>) and the HTTP framework
  (\<^verbatim>\<open>gin\<close>) are libraries outside the repository. A client is therefore a parameter:
  a record of the answers it gives. Of the framework only the operations the file calls
  are modelled (\<^verbatim>\<open>Param\<close>, \<^verbatim>\<open>Query\<close>, \<^verbatim>\<open>JSON\<close>, \<^verbatim>\<open>Header\<close>, \<^verbatim>\<open>AbortWithStatus\<close>,
  \<^verbatim>\<open>Next\<close>), as state passing on a record of the context.
\<close>

text \<open>Go's \<^verbatim>\<open>error\<close> value: the handlers only test it against \<^verbatim>\<open>nil\<close>.\<close>

type_synonym error = string

text \<open>A run-time panic: the only one the handlers can raise is a call through a nil handle.\<close>

datatype panic = NilPointerDereference

text \<open>
  \<^verbatim>\<open>gin.H\<close> is \<^verbatim>\<open>map[string]any\<close>. The values the handlers store are booleans, string
  constants, and whatever a client returned, which stays opaque (type \<open>'p\<close>).
\<close>

datatype 'p any = Bool bool | String string | Payload 'p

type_synonym 'p H = "string \<rightharpoonup> 'p any"

text \<open>The calls a request makes into the backends, in order (a log kept for the proofs).\<close>

datatype call = ImdbGetMovie string | OmdbSearch string | OmdbGetMovie string

record 'p imdb_Client =
  imdb_movie_of :: "string \<Rightarrow> error + 'p"

record 'p omdb_Client =
  omdb_movie_of :: "string \<Rightarrow> error + 'p"
  omdb_results_of :: "string \<Rightarrow> error + 'p"

datatype justwatch_Client = JustwatchClient

text \<open>The struct \<^verbatim>\<open>MovieAPI\<close>: three pointers, each of which may be nil (\<open>None\<close>).\<close>

record 'p MovieAPI =
  imdbClient :: "'p imdb_Client option"
  omdbClient :: "'p omdb_Client option"
  justwatchClient :: "justwatch_Client option"

text \<open>
  \<^verbatim>\<open>gin.Context\<close>: the request (method, path parameters, query values), the response
  being written (status, headers, body), the abort flag of the handler chain, and the
  log of backend calls.
\<close>

record 'p Context =
  Method :: string
  Params :: "string \<rightharpoonup> string"
  QueryValues :: "string \<rightharpoonup> string"
  status :: nat
  header :: "string \<rightharpoonup> string"
  body :: "'p H option"
  aborted :: bool
  calls :: "call list"

abbreviation StatusOK :: nat where "StatusOK \<equiv> 200"
abbreviation StatusNoContent :: nat where "StatusNoContent \<equiv> 204"
abbreviation StatusBadRequest :: nat where "StatusBadRequest \<equiv> 400"
abbreviation StatusNotFound :: nat where "StatusNotFound \<equiv> 404"
abbreviation StatusInternalServerError :: nat where "StatusInternalServerError \<equiv> 500"
abbreviation StatusServiceUnavailable :: nat where "StatusServiceUnavailable \<equiv> 503"

text \<open>\<^verbatim>\<open>c.Param(key)\<close> and \<^verbatim>\<open>c.Query(key)\<close>: the value, or the empty string when there is none.\<close>

definition Param :: "'p Context \<Rightarrow> string \<Rightarrow> string" where
  "Param c key = (case Params c key of None \<Rightarrow> [] | Some v \<Rightarrow> v)"

definition Query :: "'p Context \<Rightarrow> string \<Rightarrow> string" where
  "Query c key = (case QueryValues c key of None \<Rightarrow> [] | Some v \<Rightarrow> v)"

text \<open>\<^verbatim>\<open>c.JSON(code, obj)\<close>: the status, the JSON content type and the body.\<close>

definition JSON :: "nat \<Rightarrow> 'p H \<Rightarrow> 'p Context \<Rightarrow> 'p Context" where
  "JSON code obj c =
     c\<lparr>status := code,
       header := (header c)(''Content-Type'' \<mapsto> ''application/json; charset=utf-8''),
       body := Some obj\<rparr>"

text \<open>\<^verbatim>\<open>c.Header(key, value)\<close> sets a response header.\<close>

definition Header :: "string \<Rightarrow> string \<Rightarrow> 'p Context \<Rightarrow> 'p Context" where
  "Header key val c = c\<lparr>header := (header c)(key \<mapsto> val)\<rparr>"

text \<open>\<^verbatim>\<open>c.AbortWithStatus(code)\<close>: the status is written and the pending handlers are dropped.\<close>

definition AbortWithStatus :: "nat \<Rightarrow> 'p Context \<Rightarrow> 'p Context" where
  "AbortWithStatus code c = c\<lparr>status := code, aborted := True\<rparr>"

text \<open>\<^verbatim>\<open>strings.HasPrefix(s, prefix)\<close>, as the Go library defines it.\<close>

definition HasPrefix :: "string \<Rightarrow> string \<Rightarrow> bool" where
  "HasPrefix s pre = (length pre \<le> length s \<and> take (length pre) s = pre)"

text \<open>\<^verbatim>\<open>os.Getenv(key)\<close>: the value, or the empty string when the variable is unset.\<close>

definition Getenv :: "(string \<rightharpoonup> string) \<Rightarrow> string \<Rightarrow> string" where
  "Getenv env key = (case env key of None \<Rightarrow> [] | Some v \<Rightarrow> v)"

subsection \<open>Calls into the clients\<close>

text \<open>
  A method call on a client handle logs the call and returns the client's answer. The
  handler \<^verbatim>\<open>getMovieByID\<close> calls through \<^verbatim>\<open>api.imdbClient\<close> without a nil test, so that call
  is modelled on the pointer: through a nil handle it panics. The two handlers that use
  \<^verbatim>\<open>api.omdbClient\<close> test it first and call on the handle they found.
\<close>

definition imdb_GetMovie ::
  "'p imdb_Client option \<Rightarrow> string \<Rightarrow> 'p Context \<Rightarrow> panic + ((error + 'p) \<times> 'p Context)" where
  "imdb_GetMovie h ident c =
     (case h of
        None \<Rightarrow> Inl NilPointerDereference
      | Some cl \<Rightarrow> Inr (imdb_movie_of cl ident, c\<lparr>calls := calls c @ [ImdbGetMovie ident]\<rparr>))"

definition omdb_Search ::
  "'p omdb_Client \<Rightarrow> string \<Rightarrow> 'p Context \<Rightarrow> (error + 'p) \<times> 'p Context" where
  "omdb_Search cl query c = (omdb_results_of cl query, c\<lparr>calls := calls c @ [OmdbSearch query]\<rparr>)"

definition omdb_GetMovie ::
  "'p omdb_Client \<Rightarrow> string \<Rightarrow> 'p Context \<Rightarrow> (error + 'p) \<times> 'p Context" where
  "omdb_GetMovie cl ident c = (omdb_movie_of cl ident, c\<lparr>calls := calls c @ [OmdbGetMovie ident]\<rparr>)"

section \<open>The constructor\<close>

text \<open>
  The three library constructors \<^verbatim>\<open>imdb.NewClient()\<close>, \<^verbatim>\<open>omdb.NewClient(key)\<close> and
  \<^verbatim>\<open>justwatch.NewClient()\<close> are parameters: each gives a pointer.
\<close>

record 'p filmigo =
  imdb_NewClient :: "'p imdb_Client option"
  omdb_NewClient :: "string \<Rightarrow> 'p omdb_Client option"
  justwatch_NewClient :: "justwatch_Client option"

text \<open>
  \<^verbatim>\<open>NewMovieAPI\<close> reads \<^verbatim>\<open>OMDB_API_KEY\<close>, logs a warning when it is empty, and builds the
  struct. The result is the struct and the lines logged.
\<close>

definition NewMovieAPI :: "'p filmigo \<Rightarrow> (string \<rightharpoonup> string) \<Rightarrow> 'p MovieAPI \<times> string list" where
  "NewMovieAPI lib env =
     (let omdbKey = Getenv env ''OMDB_API_KEY'';
          logged = (if omdbKey = []
                    then [''Warning: OMDB_API_KEY not set. OMDB features will be disabled.'']
                    else [])
      in (\<lparr>imdbClient = imdb_NewClient lib,
           omdbClient = omdb_NewClient lib omdbKey,
           justwatchClient = justwatch_NewClient lib\<rparr>, logged))"

section \<open>The handlers\<close>

definition healthCheck :: "'p MovieAPI \<Rightarrow> 'p Context \<Rightarrow> panic + 'p Context" where
  "healthCheck api c =
     Inr (JSON StatusOK
            [''status'' \<mapsto> String ''OK'',
             ''service'' \<mapsto> String ''filmigo-api'',
             ''version'' \<mapsto> String ''1.0.0'',
             ''message'' \<mapsto> String ''Filmigo API is running successfully!''] c)"

definition getMovieByID :: "'p MovieAPI \<Rightarrow> 'p Context \<Rightarrow> panic + 'p Context" where
  "getMovieByID api c =
     (let ident = Param c ''id'' in
      if \<not> HasPrefix ident ''tt'' then
        Inr (JSON StatusBadRequest
               [''error'' \<mapsto> String (''Invalid IMDB ID format. Must start with ''
                                        @ [CHR 0x27] @ ''tt'' @ [CHR 0x27]),
                ''example'' \<mapsto> String ''tt0111161''] c)
      else
        (case imdb_GetMovie (imdbClient api) ident c of
           Inl p \<Rightarrow> Inl p
         | Inr (Inl err, c') \<Rightarrow>
             Inr (JSON StatusNotFound
                    [''error'' \<mapsto> String ''Movie not found'',
                     ''id'' \<mapsto> String ident] c')
         | Inr (Inr movie, c') \<Rightarrow>
             Inr (JSON StatusOK
                    [''success'' \<mapsto> Bool True,
                     ''data'' \<mapsto> Payload movie] c')))"

definition searchMovies :: "'p MovieAPI \<Rightarrow> 'p Context \<Rightarrow> panic + 'p Context" where
  "searchMovies api c =
     (let query = Query c ''q'' in
      if query = [] then
        Inr (JSON StatusBadRequest
               [''error'' \<mapsto> String (''Query parameter '' @ [CHR 0x27] @ ''q''
                                        @ [CHR 0x27] @ '' is required''),
                ''example'' \<mapsto> String ''/api/v1/movies/search?q=inception''] c)
      else
        (case omdbClient api of
           None \<Rightarrow>
             Inr (JSON StatusServiceUnavailable
                    [''error'' \<mapsto> String ''OMDB service unavailable. API key not configured.''] c)
         | Some cl \<Rightarrow>
             (case omdb_Search cl query c of
                (Inl err, c') \<Rightarrow>
                  Inr (JSON StatusInternalServerError
                         [''error'' \<mapsto> String ''Search failed'',
                          ''query'' \<mapsto> String query] c')
              | (Inr results, c') \<Rightarrow>
                  Inr (JSON StatusOK
                         [''success'' \<mapsto> Bool True,
                          ''query'' \<mapsto> String query,
                          ''results'' \<mapsto> Payload results] c'))))"

definition getOMDBMovie :: "'p MovieAPI \<Rightarrow> 'p Context \<Rightarrow> panic + 'p Context" where
  "getOMDBMovie api c =
     (let ident = Param c ''id'' in
      case omdbClient api of
        None \<Rightarrow>
          Inr (JSON StatusServiceUnavailable
                 [''error'' \<mapsto> String ''OMDB service unavailable. API key not configured.''] c)
      | Some cl \<Rightarrow>
          (case omdb_GetMovie cl ident c of
             (Inl err, c') \<Rightarrow>
               Inr (JSON StatusNotFound
                      [''error'' \<mapsto> String ''Movie not found in OMDB'',
                       ''id'' \<mapsto> String ident] c')
           | (Inr movie, c') \<Rightarrow>
               Inr (JSON StatusOK
                      [''success'' \<mapsto> Bool True,
                       ''source'' \<mapsto> String ''omdb'',
                       ''data'' \<mapsto> Payload movie] c')))"

section \<open>The CORS middleware\<close>

text \<open>
  A middleware is a handler that may run the rest of the chain with \<^verbatim>\<open>c.Next()\<close>; the
  rest of the chain is its first argument. \<^verbatim>\<open>corsMiddleware\<close> sets three headers, then
  either aborts with 204 (method \<^verbatim>\<open>OPTIONS\<close>) or runs the rest.
\<close>

definition corsMiddleware ::
  "('p Context \<Rightarrow> panic + 'p Context) \<Rightarrow> 'p Context \<Rightarrow> panic + 'p Context" where
  "corsMiddleware Next c =
     (let c1 = Header ''Access-Control-Allow-Origin'' ''*'' c;
          c2 = Header ''Access-Control-Allow-Methods'' ''GET, POST, PUT, DELETE, OPTIONS'' c1;
          c3 = Header ''Access-Control-Allow-Headers'' ''Content-Type, Authorization'' c2
      in if Method c3 = ''OPTIONS'' then Inr (AbortWithStatus 204 c3) else Next c3)"

text \<open>The context after the three \<^verbatim>\<open>c.Header\<close> calls of the middleware, for the statements below.\<close>

definition cors_headers :: "'p Context \<Rightarrow> 'p Context" where
  "cors_headers c =
     Header ''Access-Control-Allow-Headers'' ''Content-Type, Authorization''
       (Header ''Access-Control-Allow-Methods'' ''GET, POST, PUT, DELETE, OPTIONS''
          (Header ''Access-Control-Allow-Origin'' ''*'' c))"

section \<open>Routes and observations\<close>

text \<open>
  The four routes \<^verbatim>\<open>main\<close> registers under \<^verbatim>\<open>/api/v1\<close>, each with its handler:
  \<^verbatim>\<open>/health\<close>, \<^verbatim>\<open>/movies/:id\<close>, \<^verbatim>\<open>/movies/search\<close> and \<^verbatim>\<open>/omdb/:id\<close>.
\<close>

datatype route = Health | MovieByID | MoviesSearch | OmdbByID

fun handler :: "route \<Rightarrow> 'p MovieAPI \<Rightarrow> 'p Context \<Rightarrow> panic + 'p Context" where
  "handler Health = healthCheck"
| "handler MovieByID = getMovieByID"
| "handler MoviesSearch = searchMovies"
| "handler OmdbByID = getOMDBMovie"

text \<open>What a caller sees of a run: the status code and the body, or the panic.\<close>

definition response_of :: "panic + 'p Context \<Rightarrow> panic + nat \<times> 'p H option" where
  "response_of r = (case r of Inl p \<Rightarrow> Inl p | Inr c \<Rightarrow> Inr (status c, body c))"

definition status_of :: "panic + 'p Context \<Rightarrow> panic + nat" where
  "status_of r = (case r of Inl p \<Rightarrow> Inl p | Inr c \<Rightarrow> Inr (status c))"

text \<open>
  The answer the external client gives to the one call a route makes for a request:
  \<open>None\<close> when the route makes no call or its handle is nil.
\<close>

fun backend_answer :: "route \<Rightarrow> 'p MovieAPI \<Rightarrow> 'p Context \<Rightarrow> (error + 'p) option" where
  "backend_answer Health api c = None"
| "backend_answer MovieByID api c =
     map_option (\<lambda>cl. imdb_movie_of cl (Param c ''id'')) (imdbClient api)"
| "backend_answer MoviesSearch api c =
     map_option (\<lambda>cl. omdb_results_of cl (Query c ''q'')) (omdbClient api)"
| "backend_answer OmdbByID api c =
     map_option (\<lambda>cl. omdb_movie_of cl (Param c ''id'')) (omdbClient api)"

text \<open>
  The envelope invariant in the specification's words: a body that reports success
  carries a payload (\<^verbatim>\<open>data\<close> or \<^verbatim>\<open>results\<close>); a failure (a body that does not report
  success, or a status of 400 and above) carries an \<^verbatim>\<open>error\<close> field.
\<close>

definition envelope_invariant :: "nat \<Rightarrow> 'p H \<Rightarrow> bool" where
  "envelope_invariant code b =
     ((b ''success'' = Some (Bool True) \<longrightarrow> ''data'' \<in> dom b \<or> ''results'' \<in> dom b) \<and>
      (b ''success'' \<noteq> Some (Bool True) \<longrightarrow> ''error'' \<in> dom b) \<and>
      (400 \<le> code \<longrightarrow> ''error'' \<in> dom b))"

section \<open>Sample clients, structs and requests\<close>

text \<open>Concrete inputs at which the theorems below are instantiated; the payload type is \<open>nat\<close>.\<close>

definition sample_imdb :: "nat imdb_Client" where
  "sample_imdb =
     \<lparr>imdb_movie_of = (\<lambda>i. if i = ''tt0111161'' then Inr 1 else Inl ''no such title'')\<rparr>"

definition sample_omdb :: "nat omdb_Client" where
  "sample_omdb =
     \<lparr>omdb_movie_of = (\<lambda>i. if i = ''tt0111161'' then Inr 2 else Inl ''no such title''),
      omdb_results_of = (\<lambda>q. if q = ''inception'' then Inr 3 else Inl ''request failed'')\<rparr>"

text \<open>A second client that agrees with \<open>sample_omdb\<close> on one query only.\<close>

definition other_omdb :: "nat omdb_Client" where
  "other_omdb =
     \<lparr>omdb_movie_of = (\<lambda>i. Inl ''offline''),
      omdb_results_of = (\<lambda>q. if q = ''inception'' then Inr 3 else Inr 4)\<rparr>"

definition sample_lib :: "nat filmigo" where
  "sample_lib =
     \<lparr>imdb_NewClient = Some sample_imdb,
      omdb_NewClient = (\<lambda>key. Some sample_omdb),
      justwatch_NewClient = Some JustwatchClient\<rparr>"

definition no_key_env :: "string \<rightharpoonup> string" where
  "no_key_env = Map.empty"

definition sample_api :: "nat MovieAPI" where
  "sample_api =
     \<lparr>imdbClient = Some sample_imdb, omdbClient = Some sample_omdb,
      justwatchClient = Some JustwatchClient\<rparr>"

definition other_api :: "nat MovieAPI" where
  "other_api =
     \<lparr>imdbClient = None, omdbClient = Some other_omdb, justwatchClient = None\<rparr>"

definition nil_omdb_api :: "nat MovieAPI" where
  "nil_omdb_api =
     \<lparr>imdbClient = Some sample_imdb, omdbClient = None,
      justwatchClient = Some JustwatchClient\<rparr>"

definition nil_api :: "nat MovieAPI" where
  "nil_api = \<lparr>imdbClient = None, omdbClient = None, justwatchClient = None\<rparr>"

definition request :: "string \<Rightarrow> (string \<rightharpoonup> string) \<Rightarrow> (string \<rightharpoonup> string) \<Rightarrow> nat Context" where
  "request m ps qs =
     \<lparr>Method = m, Params = ps, QueryValues = qs, status = 0, header = Map.empty,
      body = None, aborted = False, calls = []\<rparr>"

definition search_without_q :: "nat Context" where
  "search_without_q = request ''GET'' Map.empty Map.empty"

definition search_empty_q :: "nat Context" where
  "search_empty_q = request ''GET'' Map.empty [''q'' \<mapsto> []]"

definition search_inception :: "nat Context" where
  "search_inception = request ''GET'' Map.empty [''q'' \<mapsto> ''inception'']"

definition get_shawshank :: "nat Context" where
  "get_shawshank = request ''GET'' [''id'' \<mapsto> ''tt0111161''] Map.empty"

definition get_unknown :: "nat Context" where
  "get_unknown = request ''GET'' [''id'' \<mapsto> ''tt9999999''] Map.empty"

definition get_xyz123 :: "nat Context" where
  "get_xyz123 = request ''GET'' [''id'' \<mapsto> ''xyz123''] Map.empty"

definition options_request :: "nat Context" where
  "options_request = request ''OPTIONS'' [''id'' \<mapsto> ''tt0111161''] Map.empty"

section \<open>Properties of the handlers\<close>

lemma HasPrefix_iff: "HasPrefix s pre \<longleftrightarrow> (\<exists>r. s = pre @ r)"
  unfolding HasPrefix_def
  by (metis append_eq_conv_conj append_take_drop_id length_append le_add1)

lemma health_fields_card: "card {''status'', ''service'', ''version'', ''message''} = 4"
  by simp

text \<open>
  Claim C5. For every struct and every request context, whatever the client handles are,
  the health check returns without a panic, with status 200 and a body of exactly the four
  fields \<^verbatim>\<open>status\<close>, \<^verbatim>\<open>service\<close>, \<^verbatim>\<open>version\<close> and \<^verbatim>\<open>message\<close>, each a fixed string, and
  it calls no backend.
\<close>

theorem healthCheck_fixed:
  "\<exists>c' b. healthCheck api c = Inr c' \<and> status c' = StatusOK \<and> body c' = Some b \<and>
     dom b = {''status'', ''service'', ''version'', ''message''} \<and> card (dom b) = 4 \<and>
     b ''status'' = Some (String ''OK'') \<and>
     b ''service'' = Some (String ''filmigo-api'') \<and>
     b ''version'' = Some (String ''1.0.0'') \<and>
     b ''message'' = Some (String ''Filmigo API is running successfully!'') \<and>
     calls c' = calls c"
proof -
  let ?b = "[''status'' \<mapsto> String ''OK'', ''service'' \<mapsto> String ''filmigo-api'',
             ''version'' \<mapsto> String ''1.0.0'',
             ''message'' \<mapsto> String ''Filmigo API is running successfully!''] :: 'a H"
  have run: "healthCheck api c = Inr (JSON StatusOK ?b c)"
    by (simp add: healthCheck_def)
  have d: "dom ?b = {''status'', ''service'', ''version'', ''message''}"
    by auto
  have "card (dom ?b) = 4"
    unfolding d by (rule health_fields_card)
  with run d show ?thesis
    by (simp add: JSON_def)
qed

text \<open>
  Claim C2. When the path identifier does not start with \<^verbatim>\<open>tt\<close>, the movie-by-id
  handler answers 400, the body carries the hint \<^verbatim>\<open>example: tt0111161\<close>, and the log of
  backend calls is unchanged: the primary client is not invoked (the handle may even be nil).
\<close>

theorem bad_prefix_400:
  assumes "\<not> HasPrefix (Param c ''id'') ''tt''"
  shows "\<exists>c' b. getMovieByID api c = Inr c' \<and> status c' = StatusBadRequest \<and>
           body c' = Some b \<and> b ''example'' = Some (String ''tt0111161'') \<and>
           calls c' = calls c"
  using assms by (simp add: getMovieByID_def JSON_def Let_def)

theorem bad_prefix_400_witness:
  "\<not> HasPrefix (Param get_xyz123 ''id'') ''tt'' \<and>
   (\<exists>c' b. getMovieByID nil_api get_xyz123 = Inr c' \<and> status c' = StatusBadRequest \<and>
           body c' = Some b \<and> b ''example'' = Some (String ''tt0111161'') \<and>
           calls c' = calls get_xyz123)"
proof -
  have h: "\<not> HasPrefix (Param get_xyz123 ''id'') ''tt''"
    by (simp add: HasPrefix_def Param_def get_xyz123_def request_def)
  show ?thesis using h bad_prefix_400 [OF h, of nil_api] by simp
qed

text \<open>
  Claim C3. When the query parameter \<^verbatim>\<open>q\<close> is absent or empty, the search handler
  answers 400 and the log of backend calls is unchanged: the search client is not invoked.
\<close>

theorem search_missing_q_400:
  assumes "QueryValues c ''q'' = None \<or> QueryValues c ''q'' = Some []"
  shows "\<exists>c'. searchMovies api c = Inr c' \<and> status c' = StatusBadRequest \<and>
           calls c' = calls c"
  using assms by (auto simp add: searchMovies_def Query_def JSON_def)

theorem search_missing_q_400_witness:
  "(QueryValues search_without_q ''q'' = None \<and>
    (\<exists>c'. searchMovies sample_api search_without_q = Inr c' \<and>
       status c' = StatusBadRequest \<and> calls c' = calls search_without_q)) \<and>
   (QueryValues search_empty_q ''q'' = Some [] \<and>
    (\<exists>c'. searchMovies sample_api search_empty_q = Inr c' \<and>
       status c' = StatusBadRequest \<and> calls c' = calls search_empty_q))"
proof -
  have a: "QueryValues search_without_q ''q'' = None"
    by (simp add: search_without_q_def request_def)
  have b: "QueryValues search_empty_q ''q'' = Some []"
    by (simp add: search_empty_q_def request_def)
  from a have a': "QueryValues search_without_q ''q'' = None \<or>
                   QueryValues search_without_q ''q'' = Some []" by simp
  from b have b': "QueryValues search_empty_q ''q'' = None \<or>
                   QueryValues search_empty_q ''q'' = Some []" by simp
  show ?thesis
    using a b search_missing_q_400 [OF a', of sample_api]
      search_missing_q_400 [OF b', of sample_api]
    by simp
qed

text \<open>
  Claim C9. In the search handler the emptiness test of \<^verbatim>\<open>q\<close> comes before the nil test
  of the client: with \<^verbatim>\<open>q\<close> absent or empty and a nil search client the status is 400,
  not 503.
\<close>

theorem q_check_before_client_check:
  assumes "QueryValues c ''q'' = None \<or> QueryValues c ''q'' = Some []"
    and "omdbClient api = None"
  shows "status_of (searchMovies api c) = Inr StatusBadRequest \<and>
         status_of (searchMovies api c) \<noteq> Inr StatusServiceUnavailable"
  using assms by (auto simp add: searchMovies_def Query_def JSON_def status_of_def)

theorem q_check_before_client_check_witness:
  "omdbClient nil_api = None \<and>
   QueryValues search_without_q ''q'' = None \<and>
   status_of (searchMovies nil_api search_without_q) = Inr StatusBadRequest \<and>
   QueryValues search_empty_q ''q'' = Some [] \<and>
   status_of (searchMovies nil_api search_empty_q) = Inr StatusBadRequest"
proof -
  have n: "omdbClient nil_api = None"
    by (simp add: nil_api_def)
  have a: "QueryValues search_without_q ''q'' = None"
    by (simp add: search_without_q_def request_def)
  have b: "QueryValues search_empty_q ''q'' = Some []"
    by (simp add: search_empty_q_def request_def)
  from a have a': "QueryValues search_without_q ''q'' = None \<or>
                   QueryValues search_without_q ''q'' = Some []" by simp
  from b have b': "QueryValues search_empty_q ''q'' = None \<or>
                   QueryValues search_empty_q ''q'' = Some []" by simp
  show ?thesis
    using n a b q_check_before_client_check [OF a' n] q_check_before_client_check [OF b' n]
    by simp
qed

text \<open>
  Claim C4. For an identifier that starts with \<^verbatim>\<open>tt\<close> and a primary client handle, the
  movie-by-id handler makes exactly one lookup for that identifier; when the lookup
  succeeds it answers 200 with the body \<^verbatim>\<open>{success: true, data: movie}\<close>, where
  \<^verbatim>\<open>movie\<close> is the record the client returned; when the lookup fails it answers 404.
\<close>

theorem movie_by_id_lookup:
  assumes "HasPrefix (Param c ''id'') ''tt''" and "imdbClient api = Some cl"
  shows "\<exists>c'. getMovieByID api c = Inr c' \<and>
           calls c' = calls c @ [ImdbGetMovie (Param c ''id'')] \<and>
           (\<forall>movie. imdb_movie_of cl (Param c ''id'') = Inr movie \<longrightarrow>
              status c' = StatusOK \<and>
              body c' = Some [''success'' \<mapsto> Bool True, ''data'' \<mapsto> Payload movie]) \<and>
           (\<forall>err. imdb_movie_of cl (Param c ''id'') = Inl err \<longrightarrow>
              status c' = StatusNotFound)"
proof (cases "imdb_movie_of cl (Param c ''id'')")
  case (Inl err)
  with assms show ?thesis
    by (simp add: getMovieByID_def imdb_GetMovie_def JSON_def Let_def)
next
  case (Inr movie)
  with assms show ?thesis
    by (simp add: getMovieByID_def imdb_GetMovie_def JSON_def Let_def)
qed

theorem movie_by_id_lookup_witness:
  "HasPrefix (Param get_shawshank ''id'') ''tt'' \<and> imdbClient sample_api = Some sample_imdb \<and>
   imdb_movie_of sample_imdb (Param get_shawshank ''id'') = Inr 1 \<and>
   response_of (getMovieByID sample_api get_shawshank) =
     Inr (StatusOK, Some [''success'' \<mapsto> Bool True, ''data'' \<mapsto> Payload 1]) \<and>
   HasPrefix (Param get_unknown ''id'') ''tt'' \<and>
   imdb_movie_of sample_imdb (Param get_unknown ''id'') = Inl ''no such title'' \<and>
   status_of (getMovieByID sample_api get_unknown) = Inr StatusNotFound"
proof -
  have p1: "HasPrefix (Param get_shawshank ''id'') ''tt''"
    by (simp add: HasPrefix_def Param_def get_shawshank_def request_def)
  have p2: "HasPrefix (Param get_unknown ''id'') ''tt''"
    by (simp add: HasPrefix_def Param_def get_unknown_def request_def)
  have cl: "imdbClient sample_api = Some sample_imdb"
    by (simp add: sample_api_def)
  have r1: "imdb_movie_of sample_imdb (Param get_shawshank ''id'') = Inr 1"
    by (simp add: sample_imdb_def Param_def get_shawshank_def request_def)
  have r2: "imdb_movie_of sample_imdb (Param get_unknown ''id'') = Inl ''no such title''"
    by (simp add: sample_imdb_def Param_def get_unknown_def request_def)
  from movie_by_id_lookup [OF p1 cl] r1
  have s1: "response_of (getMovieByID sample_api get_shawshank) =
     Inr (StatusOK, Some [''success'' \<mapsto> Bool True, ''data'' \<mapsto> Payload 1])"
    by (auto simp add: response_of_def)
  from movie_by_id_lookup [OF p2 cl] r2
  have s2: "status_of (getMovieByID sample_api get_unknown) = Inr StatusNotFound"
    by (auto simp add: status_of_def)
  from p1 p2 cl r1 r2 s1 s2 show ?thesis by simp
qed


lemma getMovieByID_envelope:
  assumes "getMovieByID api c = Inr c'"
  shows "\<exists>b. body c' = Some b \<and> envelope_invariant (status c') b"
  using assms
  by (auto simp add: getMovieByID_def imdb_GetMovie_def JSON_def Let_def envelope_invariant_def
      split: if_splits option.splits sum.splits)

lemma searchMovies_envelope:
  assumes "searchMovies api c = Inr c'"
  shows "\<exists>b. body c' = Some b \<and> envelope_invariant (status c') b"
  using assms
  by (auto simp add: searchMovies_def omdb_Search_def JSON_def Let_def envelope_invariant_def
      split: if_splits option.splits sum.splits)

lemma getOMDBMovie_envelope:
  assumes "getOMDBMovie api c = Inr c'"
  shows "\<exists>b. body c' = Some b \<and> envelope_invariant (status c') b"
  using assms
  by (auto simp add: getOMDBMovie_def omdb_GetMovie_def JSON_def Let_def envelope_invariant_def
      split: if_splits option.splits sum.splits)

text \<open>
  Claim C6. Every body produced by the movie-by-id, search and secondary-source handlers
  satisfies the envelope invariant: a body with \<^verbatim>\<open>success: true\<close> has a \<^verbatim>\<open>data\<close> or a
  \<^verbatim>\<open>results\<close> field, and a failure has an \<^verbatim>\<open>error\<close> field.
\<close>

theorem envelope_holds:
  assumes "r \<noteq> Health" and "handler r api c = Inr c'"
  shows "\<exists>b. body c' = Some b \<and> envelope_invariant (status c') b"
proof (cases r)
  case Health
  with assms show ?thesis by simp
next
  case MovieByID
  with assms show ?thesis by (simp add: getMovieByID_envelope)
next
  case MoviesSearch
  with assms show ?thesis by (simp add: searchMovies_envelope)
next
  case OmdbByID
  with assms show ?thesis by (simp add: getOMDBMovie_envelope)
qed


theorem envelope_holds_witness:
  "MoviesSearch \<noteq> Health \<and> OmdbByID \<noteq> Health \<and> MovieByID \<noteq> Health \<and>
   (\<exists>c' b. handler MoviesSearch sample_api search_inception = Inr c' \<and>
      body c' = Some b \<and> envelope_invariant (status c') b \<and>
      b ''success'' = Some (Bool True) \<and> b ''results'' = Some (Payload 3)) \<and>
   (\<exists>c' b. handler OmdbByID nil_omdb_api get_shawshank = Inr c' \<and>
      body c' = Some b \<and> envelope_invariant (status c') b \<and>
      status c' = StatusServiceUnavailable \<and> ''error'' \<in> dom b) \<and>
   (\<exists>c' b. handler MovieByID sample_api get_xyz123 = Inr c' \<and>
      body c' = Some b \<and> envelope_invariant (status c') b \<and>
      status c' = StatusBadRequest \<and> ''error'' \<in> dom b)"
proof -
  obtain c1 where r1: "handler MoviesSearch sample_api search_inception = Inr c1"
    and b1: "body c1 = Some [''success'' \<mapsto> Bool True, ''query'' \<mapsto> String ''inception'',
                             ''results'' \<mapsto> Payload 3]"
    by (simp add: searchMovies_def omdb_Search_def JSON_def Let_def Query_def
        sample_api_def sample_omdb_def search_inception_def request_def)
  obtain c2 where r2: "handler OmdbByID nil_omdb_api get_shawshank = Inr c2"
    and s2: "status c2 = StatusServiceUnavailable"
    by (simp add: getOMDBMovie_def JSON_def Let_def nil_omdb_api_def)
  obtain c3 where r3: "handler MovieByID sample_api get_xyz123 = Inr c3"
    and s3: "status c3 = StatusBadRequest"
    by (simp add: getMovieByID_def JSON_def Let_def HasPrefix_def Param_def
        get_xyz123_def request_def)
  have n1: "MoviesSearch \<noteq> Health" and n2: "OmdbByID \<noteq> Health" and n3: "MovieByID \<noteq> Health"
    by simp_all
  from envelope_holds [OF n1 r1] b1 r1
  have e1: "\<exists>c' b. handler MoviesSearch sample_api search_inception = Inr c' \<and>
      body c' = Some b \<and> envelope_invariant (status c') b \<and>
      b ''success'' = Some (Bool True) \<and> b ''results'' = Some (Payload 3)"
    by auto
  from envelope_holds [OF n2 r2] s2 r2
  have e2: "\<exists>c' b. handler OmdbByID nil_omdb_api get_shawshank = Inr c' \<and>
      body c' = Some b \<and> envelope_invariant (status c') b \<and>
      status c' = StatusServiceUnavailable \<and> ''error'' \<in> dom b"
    by (auto simp add: envelope_invariant_def)
  from envelope_holds [OF n3 r3] s3 r3
  have e3: "\<exists>c' b. handler MovieByID sample_api get_xyz123 = Inr c' \<and>
      body c' = Some b \<and> envelope_invariant (status c') b \<and>
      status c' = StatusBadRequest \<and> ''error'' \<in> dom b"
    by (auto simp add: envelope_invariant_def)
  from n1 n2 n3 e1 e2 e3 show ?thesis by blast
qed

lemma getMovieByID_response:
  "response_of (getMovieByID api c) =
     (if \<not> HasPrefix (Param c ''id'') ''tt'' then
        Inr (StatusBadRequest,
             Some [''error'' \<mapsto> String (''Invalid IMDB ID format. Must start with ''
                                        @ [CHR 0x27] @ ''tt'' @ [CHR 0x27]),
                   ''example'' \<mapsto> String ''tt0111161''])
      else case backend_answer MovieByID api c of
             None \<Rightarrow> Inl NilPointerDereference
           | Some (Inl err) \<Rightarrow>
               Inr (StatusNotFound,
                    Some [''error'' \<mapsto> String ''Movie not found'',
                          ''id'' \<mapsto> String (Param c ''id'')])
           | Some (Inr movie) \<Rightarrow>
               Inr (StatusOK, Some [''success'' \<mapsto> Bool True, ''data'' \<mapsto> Payload movie]))"
  by (simp add: getMovieByID_def imdb_GetMovie_def JSON_def Let_def response_of_def
      split: option.splits sum.splits)

lemma searchMovies_response:
  "response_of (searchMovies api c) =
     (if Query c ''q'' = [] then
        Inr (StatusBadRequest,
             Some [''error'' \<mapsto> String (''Query parameter '' @ [CHR 0x27] @ ''q''
                                        @ [CHR 0x27] @ '' is required''),
                   ''example'' \<mapsto> String ''/api/v1/movies/search?q=inception''])
      else case backend_answer MoviesSearch api c of
             None \<Rightarrow>
               Inr (StatusServiceUnavailable,
                    Some [''error'' \<mapsto>
                            String ''OMDB service unavailable. API key not configured.''])
           | Some (Inl err) \<Rightarrow>
               Inr (StatusInternalServerError,
                    Some [''error'' \<mapsto> String ''Search failed'',
                          ''query'' \<mapsto> String (Query c ''q'')])
           | Some (Inr results) \<Rightarrow>
               Inr (StatusOK,
                    Some [''success'' \<mapsto> Bool True, ''query'' \<mapsto> String (Query c ''q''),
                          ''results'' \<mapsto> Payload results]))"
  by (simp add: searchMovies_def omdb_Search_def JSON_def Let_def response_of_def
      split: option.splits sum.splits)

lemma getOMDBMovie_response:
  "response_of (getOMDBMovie api c) =
     (case backend_answer OmdbByID api c of
        None \<Rightarrow>
          Inr (StatusServiceUnavailable,
               Some [''error'' \<mapsto>
                       String ''OMDB service unavailable. API key not configured.''])
      | Some (Inl err) \<Rightarrow>
          Inr (StatusNotFound,
               Some [''error'' \<mapsto> String ''Movie not found in OMDB'',
                     ''id'' \<mapsto> String (Param c ''id'')])
      | Some (Inr movie) \<Rightarrow>
          Inr (StatusOK,
               Some [''success'' \<mapsto> Bool True, ''source'' \<mapsto> String ''omdb'',
                     ''data'' \<mapsto> Payload movie]))"
  by (simp add: getOMDBMovie_def omdb_GetMovie_def JSON_def Let_def response_of_def
      split: option.splits sum.splits)

lemma healthCheck_response:
  "response_of (healthCheck api c) = response_of (healthCheck api' c')"
  by (simp add: healthCheck_def JSON_def response_of_def)

text \<open>
  Claim C10. Every handler is deterministic: two runs of the same route, on any two
  structs and any two contexts, that agree on the request parameters (\<^verbatim>\<open>id\<close>, \<^verbatim>\<open>q\<close>)
  and on the answer of the external client give the same status and the same body.
\<close>

theorem handlers_deterministic:
  assumes "Param c1 ''id'' = Param c2 ''id''"
    and "Query c1 ''q'' = Query c2 ''q''"
    and "backend_answer r api1 c1 = backend_answer r api2 c2"
  shows "response_of (handler r api1 c1) = response_of (handler r api2 c2)"
proof (cases r)
  case Health
  then show ?thesis by (simp add: healthCheck_response [of api1 c1 api2 c2])
next
  case MovieByID
  with assms show ?thesis by (simp only: handler.simps getMovieByID_response)
next
  case MoviesSearch
  with assms show ?thesis by (simp only: handler.simps searchMovies_response)
next
  case OmdbByID
  with assms show ?thesis by (simp only: handler.simps getOMDBMovie_response)
qed

theorem handlers_deterministic_witness:
  "Param search_inception ''id'' = Param (search_inception\<lparr>Method := ''HEAD'', status := 500\<rparr>) ''id'' \<and>
   Query search_inception ''q'' = Query (search_inception\<lparr>Method := ''HEAD'', status := 500\<rparr>) ''q'' \<and>
   backend_answer MoviesSearch sample_api search_inception =
     backend_answer MoviesSearch other_api (search_inception\<lparr>Method := ''HEAD'', status := 500\<rparr>) \<and>
   sample_api \<noteq> other_api \<and>
   response_of (handler MoviesSearch sample_api search_inception) =
     response_of (handler MoviesSearch other_api (search_inception\<lparr>Method := ''HEAD'', status := 500\<rparr>)) \<and>
   response_of (handler MoviesSearch sample_api search_inception) =
     Inr (StatusOK, Some [''success'' \<mapsto> Bool True, ''query'' \<mapsto> String ''inception'',
                          ''results'' \<mapsto> Payload 3])"
proof -
  let ?c2 = "search_inception\<lparr>Method := ''HEAD'', status := 500\<rparr>"
  have p: "Param search_inception ''id'' = Param ?c2 ''id''"
    by (simp add: Param_def)
  have q: "Query search_inception ''q'' = Query ?c2 ''q''"
    by (simp add: Query_def)
  have a: "backend_answer MoviesSearch sample_api search_inception =
           backend_answer MoviesSearch other_api ?c2"
    by (simp add: Query_def sample_api_def other_api_def sample_omdb_def other_omdb_def
        search_inception_def request_def)
  have d: "sample_api \<noteq> other_api"
    by (simp add: sample_api_def other_api_def)
  have v: "response_of (handler MoviesSearch sample_api search_inception) =
     Inr (StatusOK, Some [''success'' \<mapsto> Bool True, ''query'' \<mapsto> String ''inception'',
                          ''results'' \<mapsto> Payload 3])"
    by (simp add: searchMovies_response Query_def sample_api_def sample_omdb_def
        search_inception_def request_def)
  from p q a d v handlers_deterministic [OF p q a] show ?thesis by simp
qed

section \<open>The middleware\<close>

lemma handler_keeps_header:
  assumes "handler r api c = Inr c'" and "k \<noteq> ''Content-Type''"
  shows "header c' k = header c k"
proof (cases r)
  case Health
  with assms show ?thesis
    by (auto simp add: healthCheck_def JSON_def)
next
  case MovieByID
  with assms show ?thesis
    by (auto simp add: getMovieByID_def imdb_GetMovie_def JSON_def Let_def
        split: if_splits option.splits sum.splits)
next
  case MoviesSearch
  with assms show ?thesis
    by (auto simp add: searchMovies_def omdb_Search_def JSON_def Let_def
        split: if_splits option.splits sum.splits)
next
  case OmdbByID
  with assms show ?thesis
    by (auto simp add: getOMDBMovie_def omdb_GetMovie_def JSON_def Let_def
        split: if_splits option.splits sum.splits)
qed

lemma cors_sets_origin:
  "header (cors_headers c) ''Access-Control-Allow-Origin'' = Some ''*''"
  by (simp add: cors_headers_def Header_def)

lemma corsMiddleware_unfold:
  "corsMiddleware Next c =
     (if Method c = ''OPTIONS'' then Inr (AbortWithStatus 204 (cors_headers c))
      else Next (cors_headers c))"
  by (simp add: corsMiddleware_def cors_headers_def Header_def Let_def)

text \<open>
  Claim C7. The CORS middleware sets \<^verbatim>\<open>Access-Control-Allow-Origin: *\<close> on every
  request. When the method is \<^verbatim>\<open>OPTIONS\<close> it aborts with status 204, and the result does
  not depend on the rest of the chain: no handler is reached, no body is written, no
  backend is called. Otherwise it runs the rest of the chain on the context with the header
  set, and each of the four handlers of this file keeps the header in its response.
\<close>

theorem cors_middleware:
  "(Method c = ''OPTIONS'' \<longrightarrow>
      (\<exists>c'. corsMiddleware Next c = Inr c' \<and> status c' = StatusNoContent \<and> aborted c' \<and>
         header c' ''Access-Control-Allow-Origin'' = Some ''*'' \<and>
         body c' = body c \<and> calls c' = calls c) \<and>
      corsMiddleware Next c = corsMiddleware Next' c) \<and>
   (Method c \<noteq> ''OPTIONS'' \<longrightarrow>
      (\<exists>c1. corsMiddleware Next c = Next c1 \<and>
         header c1 ''Access-Control-Allow-Origin'' = Some ''*'' \<and>
         Method c1 = Method c \<and> Params c1 = Params c \<and> QueryValues c1 = QueryValues c)) \<and>
   (\<forall>c'. corsMiddleware (handler r api) c = Inr c' \<longrightarrow>
      header c' ''Access-Control-Allow-Origin'' = Some ''*'')"
proof (intro conjI impI allI)
  assume "Method c = ''OPTIONS''"
  then show "\<exists>c'. corsMiddleware Next c = Inr c' \<and> status c' = StatusNoContent \<and> aborted c' \<and>
         header c' ''Access-Control-Allow-Origin'' = Some ''*'' \<and>
         body c' = body c \<and> calls c' = calls c"
    by (simp add: corsMiddleware_unfold AbortWithStatus_def cors_headers_def Header_def)
next
  assume "Method c = ''OPTIONS''"
  then show "corsMiddleware Next c = corsMiddleware Next' c"
    by (simp add: corsMiddleware_unfold)
next
  assume "Method c \<noteq> ''OPTIONS''"
  then have "corsMiddleware Next c = Next (cors_headers c)"
    by (simp add: corsMiddleware_unfold)
  moreover have "Method (cors_headers c) = Method c \<and> Params (cors_headers c) = Params c \<and>
    QueryValues (cors_headers c) = QueryValues c"
    by (simp add: cors_headers_def Header_def)
  ultimately show "\<exists>c1. corsMiddleware Next c = Next c1 \<and>
         header c1 ''Access-Control-Allow-Origin'' = Some ''*'' \<and>
         Method c1 = Method c \<and> Params c1 = Params c \<and> QueryValues c1 = QueryValues c"
    using cors_sets_origin [of c] by blast
next
  fix c'
  assume run: "corsMiddleware (handler r api) c = Inr c'"
  show "header c' ''Access-Control-Allow-Origin'' = Some ''*''"
  proof (cases "Method c = ''OPTIONS''")
    case True
    with run show ?thesis
      by (auto simp add: corsMiddleware_unfold AbortWithStatus_def cors_headers_def Header_def)
  next
    case False
    with run have "handler r api (cors_headers c) = Inr c'"
      by (simp add: corsMiddleware_unfold)
    then have "header c' ''Access-Control-Allow-Origin'' =
               header (cors_headers c) ''Access-Control-Allow-Origin''"
      by (rule handler_keeps_header) simp
    then show ?thesis by (simp add: cors_sets_origin)
  qed
qed

theorem cors_middleware_witness:
  "Method options_request = ''OPTIONS'' \<and>
   (\<exists>c'. corsMiddleware (handler MovieByID nil_api) options_request = Inr c' \<and>
      status c' = StatusNoContent \<and> aborted c' \<and>
      header c' ''Access-Control-Allow-Origin'' = Some ''*'' \<and>
      body c' = None \<and> calls c' = []) \<and>
   Method get_shawshank \<noteq> ''OPTIONS'' \<and>
   (\<exists>c'. corsMiddleware (handler MovieByID sample_api) get_shawshank = Inr c' \<and>
      status c' = StatusOK \<and> calls c' = [ImdbGetMovie ''tt0111161''] \<and>
      header c' ''Access-Control-Allow-Origin'' = Some ''*'')"
proof -
  have m1: "Method options_request = ''OPTIONS''"
    by (simp add: options_request_def request_def)
  have m2: "Method get_shawshank \<noteq> ''OPTIONS''"
    by (simp add: get_shawshank_def request_def)
  have o: "body options_request = None \<and> calls options_request = []"
    by (simp add: options_request_def request_def)
  from cors_middleware [of options_request "handler MovieByID nil_api"] m1 o
  have a: "\<exists>c'. corsMiddleware (handler MovieByID nil_api) options_request = Inr c' \<and>
      status c' = StatusNoContent \<and> aborted c' \<and>
      header c' ''Access-Control-Allow-Origin'' = Some ''*'' \<and>
      body c' = None \<and> calls c' = []"
    by simp
  obtain c' where run: "corsMiddleware (handler MovieByID sample_api) get_shawshank = Inr c'"
    and st: "status c' = StatusOK" and cs: "calls c' = [ImdbGetMovie ''tt0111161'']"
    by (simp add: corsMiddleware_unfold getMovieByID_def imdb_GetMovie_def JSON_def Let_def
        HasPrefix_def Param_def cors_headers_def Header_def sample_api_def sample_imdb_def
        get_shawshank_def request_def)
  from cors_middleware [of get_shawshank _ _ MovieByID sample_api] run
  have "header c' ''Access-Control-Allow-Origin'' = Some ''*''"
    by blast
  with run st cs
  have b: "\<exists>c'. corsMiddleware (handler MovieByID sample_api) get_shawshank = Inr c' \<and>
      status c' = StatusOK \<and> calls c' = [ImdbGetMovie ''tt0111161''] \<and>
      header c' ''Access-Control-Allow-Origin'' = Some ''*''"
    by blast
  from m1 m2 a b show ?thesis by blast
qed

section \<open>The constructor and the nil test of the secondary client\<close>

text \<open>
  \<^verbatim>\<open>NewMovieAPI\<close> tests the key only to log the warning: the handle it stores is what
  \<^verbatim>\<open>omdb.NewClient\<close> returned for the key, empty or not.
\<close>

lemma NewMovieAPI_omdbClient:
  "omdbClient (fst (NewMovieAPI lib env)) = omdb_NewClient lib (Getenv env ''OMDB_API_KEY'')"
  by (simp add: NewMovieAPI_def Let_def)

lemma NewMovieAPI_warning:
  "snd (NewMovieAPI lib env) =
     (if Getenv env ''OMDB_API_KEY'' = []
      then [''Warning: OMDB_API_KEY not set. OMDB features will be disabled.'']
      else [])"
  by (simp add: NewMovieAPI_def Let_def)

text \<open>
  The 503 branches: with a nil secondary-source handle the secondary-source lookup answers
  503, the search handler answers 400 when \<^verbatim>\<open>q\<close> is empty or absent and 503 otherwise,
  and neither calls a backend.
\<close>

lemma nil_handle_503:
  assumes "omdbClient api = None"
  shows "(\<exists>c'. getOMDBMovie api c = Inr c' \<and> status c' = StatusServiceUnavailable \<and>
            calls c' = calls c) \<and>
         (\<exists>c'. searchMovies api c = Inr c' \<and>
            status c' = (if Query c ''q'' = [] then StatusBadRequest
                         else StatusServiceUnavailable) \<and>
            calls c' = calls c)"
  using assms
  by (simp add: getOMDBMovie_def searchMovies_def JSON_def Let_def)

text \<open>
  Claim C1. The claim asks for 503 from the search and the secondary-source lookup when
  no API key is set. The code does not do that. With \<^verbatim>\<open>OMDB_API_KEY\<close> unset,
  \<^verbatim>\<open>NewMovieAPI\<close> logs that the OMDB features will be disabled and still stores the
  client the library constructor returned; on the struct built, the search for
  \<^verbatim>\<open>inception\<close> calls the client and answers 200, and so does the secondary-source lookup
  of \<^verbatim>\<open>tt0111161\<close>. The 503 answer is given only on a struct whose handle is nil, which
  \<^verbatim>\<open>NewMovieAPI\<close> never makes by itself.
\<close>

theorem no_key_search_answers_200:
  "Getenv no_key_env ''OMDB_API_KEY'' = [] \<and>
   snd (NewMovieAPI sample_lib no_key_env) =
     [''Warning: OMDB_API_KEY not set. OMDB features will be disabled.''] \<and>
   omdbClient (fst (NewMovieAPI sample_lib no_key_env)) = Some sample_omdb \<and>
   Query search_inception ''q'' = ''inception'' \<and>
   response_of (searchMovies (fst (NewMovieAPI sample_lib no_key_env)) search_inception) =
     Inr (StatusOK, Some [''success'' \<mapsto> Bool True, ''query'' \<mapsto> String ''inception'',
                          ''results'' \<mapsto> Payload 3]) \<and>
   status_of (searchMovies (fst (NewMovieAPI sample_lib no_key_env)) search_inception) \<noteq>
     Inr StatusServiceUnavailable \<and>
   status_of (getOMDBMovie (fst (NewMovieAPI sample_lib no_key_env)) get_shawshank) =
     Inr StatusOK \<and>
   status_of (searchMovies nil_omdb_api search_inception) = Inr StatusServiceUnavailable"
proof -
  have k: "Getenv no_key_env ''OMDB_API_KEY'' = []"
    by (simp add: Getenv_def no_key_env_def)
  have w: "snd (NewMovieAPI sample_lib no_key_env) =
     [''Warning: OMDB_API_KEY not set. OMDB features will be disabled.'']"
    by (simp add: NewMovieAPI_warning k)
  have h: "omdbClient (fst (NewMovieAPI sample_lib no_key_env)) = Some sample_omdb"
    by (simp add: NewMovieAPI_omdbClient sample_lib_def)
  have q: "Query search_inception ''q'' = ''inception''"
    by (simp add: Query_def search_inception_def request_def)
  have r: "response_of (searchMovies (fst (NewMovieAPI sample_lib no_key_env)) search_inception) =
     Inr (StatusOK, Some [''success'' \<mapsto> Bool True, ''query'' \<mapsto> String ''inception'',
                          ''results'' \<mapsto> Payload 3])"
    by (simp add: response_of_def searchMovies_def omdb_Search_def JSON_def Let_def h q
        sample_omdb_def)
  have s: "status_of (searchMovies (fst (NewMovieAPI sample_lib no_key_env)) search_inception) =
     Inr StatusOK"
    by (simp add: status_of_def searchMovies_def omdb_Search_def JSON_def Let_def h q
        sample_omdb_def)
  have g: "status_of (getOMDBMovie (fst (NewMovieAPI sample_lib no_key_env)) get_shawshank) =
     Inr StatusOK"
    by (simp add: status_of_def getOMDBMovie_def omdb_GetMovie_def JSON_def Let_def h
        Param_def sample_omdb_def get_shawshank_def request_def)
  have n: "status_of (searchMovies nil_omdb_api search_inception) = Inr StatusServiceUnavailable"
    by (simp add: status_of_def searchMovies_def JSON_def Let_def q nil_omdb_api_def)
  from k w h q r s g n show ?thesis by simp
qed

end
